theory Spec2Isabelle
  imports Complex_Main
begin

section \<open>The 2D label canvas viewer (label2d_viewer.tsx) and the tool bar\<close>

text \<open>
  The viewer is a React component whose methods act on browser objects (two canvases,
  their 2D contexts, the display element), on the drawable label list \<open>_labels\<close> and on
  helpers of \<open>../view/image\<close>. None of these is defined in the files at hand, so they
  are parameters of the model: everything outside the component is one state \<open>'w\<close>
  (the DOM, the label list, the session store), and each outside operation is a
  field of an environment record acting on \<open>'w\<close>. The component's own fields are a
  record, its methods are functions passing the pair of component and outside state.

  A JavaScript \<open>number\<close> is modelled by a real (finite values; \<open>NaN\<close> is outside the
  model). A nullable reference is an \<open>option\<close> of an object address.
\<close>

subsection \<open>Data\<close>

type_synonym HTMLDivElement = nat
type_synonym HTMLCanvasElement = nat
type_synonym CanvasRenderingContext2D = nat

datatype Vector2D = Vector2D real real

record ImageViewerConfig =
  viewScale :: real

record MouseEvent =
  button :: int
  clientX :: real
  clientY :: real

record KeyboardEvent =
  key :: string

record ClassType =
  label_canvas :: string
  control_canvas :: string

record Label2dViewer =
  props_classes :: ClassType
  props_display :: "HTMLDivElement option"
  labelContext :: "CanvasRenderingContext2D option"
  controlContext :: "CanvasRenderingContext2D option"
  labelCanvas :: "HTMLCanvasElement option"
  controlCanvas :: "HTMLCanvasElement option"
  display :: "HTMLDivElement option"
  scale :: real
  canvasHeight :: real
  canvasWidth :: real
  displayToImageRatio :: real
  keyDownMap :: "string \<rightharpoonup> bool"

text \<open>
  The imports of the viewer: the constants and functions of \<open>../view/image\<close>, the
  methods of the \<open>Label2DList\<close> held in \<open>_labels\<close>, the session store read by
  \<open>getCurrentImageViewerConfig (Session.getState ())\<close>, and the browser calls
  \<open>canvas.style.cursor = c\<close>, \<open>canvas.getContext ('2d')\<close>,
  \<open>display.getBoundingClientRect ()\<close> (width and height) and
  \<open>context.getImageData (x, y, w, h).data\<close>.
\<close>

record 'w env =
  MIN_SCALE :: real
  MAX_SCALE :: real
  UP_RES_RATIO :: real
  clearCanvas :: "HTMLCanvasElement \<Rightarrow> CanvasRenderingContext2D \<Rightarrow> 'w \<Rightarrow> 'w"
  normalizeMouseCoordinates ::
    "HTMLDivElement \<Rightarrow> HTMLCanvasElement \<Rightarrow> real \<Rightarrow> real \<Rightarrow> real \<Rightarrow> real \<Rightarrow> real \<Rightarrow> 'w \<Rightarrow> Vector2D"
  toCanvasCoords :: "Vector2D \<Rightarrow> bool \<Rightarrow> real \<Rightarrow> real \<times> real"
  imageDataToHandleId :: "nat list \<Rightarrow> int \<times> int"
  getCurrentImageSize :: "'w \<Rightarrow> Vector2D"
  updateCanvasScale ::
    "HTMLDivElement \<Rightarrow> HTMLCanvasElement \<Rightarrow> CanvasRenderingContext2D \<Rightarrow> ImageViewerConfig
       \<Rightarrow> real \<Rightarrow> bool \<Rightarrow> 'w \<Rightarrow> (real \<times> real \<times> real \<times> real) \<times> 'w"
  getCurrentImageViewerConfig :: "'w \<Rightarrow> ImageViewerConfig"
  style_cursor_set :: "HTMLCanvasElement \<Rightarrow> string \<Rightarrow> 'w \<Rightarrow> 'w"
  getContext :: "HTMLCanvasElement \<Rightarrow> 'w \<Rightarrow> CanvasRenderingContext2D option"
  getBoundingClientRect :: "HTMLDivElement \<Rightarrow> 'w \<Rightarrow> real \<times> real"
  getImageData :: "CanvasRenderingContext2D \<Rightarrow> real \<Rightarrow> real \<Rightarrow> nat \<Rightarrow> nat \<Rightarrow> 'w \<Rightarrow> nat list"
  labels_redraw :: "CanvasRenderingContext2D \<Rightarrow> CanvasRenderingContext2D \<Rightarrow> real \<Rightarrow> 'w \<Rightarrow> 'w"
  labels_onMouseDown :: "Vector2D \<Rightarrow> int \<Rightarrow> int \<Rightarrow> 'w \<Rightarrow> bool \<times> 'w"
  labels_onMouseUp :: "Vector2D \<Rightarrow> int \<Rightarrow> int \<Rightarrow> 'w \<Rightarrow> 'w"
  labels_onMouseMove :: "Vector2D \<Rightarrow> Vector2D \<Rightarrow> int \<Rightarrow> int \<Rightarrow> 'w \<Rightarrow> bool \<times> 'w"

subsection \<open>The constructor\<close>

definition constructor :: "ClassType \<Rightarrow> HTMLDivElement option \<Rightarrow> Label2dViewer" where
  "constructor cls d =
     \<lparr> props_classes = cls, props_display = d,
       labelContext = None, controlContext = None,
       labelCanvas = None, controlCanvas = None, display = None,
       scale = 1, canvasHeight = 0, canvasWidth = 0, displayToImageRatio = 1,
       keyDownMap = Map.empty \<rparr>"

subsection \<open>Cursor, redraw, pointer position and handle lookup\<close>

definition setCursor :: "'w env \<Rightarrow> string \<Rightarrow> Label2dViewer \<times> 'w \<Rightarrow> Label2dViewer \<times> 'w" where
  "setCursor E cursor = (\<lambda>(v, w).
     (case labelCanvas v of
        Some c \<Rightarrow> (v, style_cursor_set E c cursor w)
      | None \<Rightarrow> (v, w)))"

definition setDefaultCursor :: "'w env \<Rightarrow> Label2dViewer \<times> 'w \<Rightarrow> Label2dViewer \<times> 'w" where
  "setDefaultCursor E = setCursor E ''crosshair''"

text \<open>\<open>redraw\<close> returns its boolean together with the state it leaves.\<close>

definition redraw :: "'w env \<Rightarrow> Label2dViewer \<times> 'w \<Rightarrow> bool \<times> Label2dViewer \<times> 'w" where
  "redraw E = (\<lambda>(v, w).
     (case (labelCanvas v, labelContext v, controlCanvas v, controlContext v) of
        (Some lc, Some lx, Some cc, Some cx) \<Rightarrow>
          (let w1 = clearCanvas E lc lx w;
               w2 = clearCanvas E cc cx w1;
               w3 = labels_redraw E lx cx (displayToImageRatio v * UP_RES_RATIO E) w2
           in (True, v, w3))
      | _ \<Rightarrow> (True, v, w)))"

definition getMousePos :: "'w env \<Rightarrow> MouseEvent \<Rightarrow> Label2dViewer \<times> 'w \<Rightarrow> Vector2D" where
  "getMousePos E e = (\<lambda>(v, w).
     (case (display v, labelCanvas v) of
        (Some d, Some lc) \<Rightarrow>
          normalizeMouseCoordinates E d lc (canvasWidth v) (canvasHeight v)
            (displayToImageRatio v) (clientX e) (clientY e) w
      | _ \<Rightarrow> Vector2D 0 0))"

definition fetchHandleId :: "'w env \<Rightarrow> Vector2D \<Rightarrow> Label2dViewer \<times> 'w \<Rightarrow> int \<times> int" where
  "fetchHandleId E mousePos = (\<lambda>(v, w).
     (case controlContext v of
        Some cx \<Rightarrow>
          (let (x, y) = toCanvasCoords E mousePos True (displayToImageRatio v);
               data = getImageData E cx x y 4 4 w
           in imageDataToHandleId E data)
      | None \<Rightarrow> (- 1, 0)))"

subsection \<open>Keyboard state\<close>

definition isKeyDown :: "Label2dViewer \<Rightarrow> string \<Rightarrow> bool" where
  "isKeyDown v k = (keyDownMap v k = Some True)"

definition onKeyDown :: "'w env \<Rightarrow> KeyboardEvent \<Rightarrow> Label2dViewer \<times> 'w \<Rightarrow> Label2dViewer \<times> 'w" where
  "onKeyDown E e = (\<lambda>(v, w). (v\<lparr>keyDownMap := (keyDownMap v)(key e \<mapsto> True)\<rparr>, w))"

definition onKeyUp :: "'w env \<Rightarrow> KeyboardEvent \<Rightarrow> Label2dViewer \<times> 'w \<Rightarrow> Label2dViewer \<times> 'w" where
  "onKeyUp E e = (\<lambda>(v, w).
     (let v1 = v\<lparr>keyDownMap := (keyDownMap v)(key e := None)\<rparr>
      in if key e = ''Control'' \<or> key e = ''Meta'' then setDefaultCursor E (v1, w)
         else (v1, w)))"

subsection \<open>Pointer handlers\<close>

text \<open>
  A handler returns whether it called \<open>e.stopPropagation ()\<close>, and the state it leaves.
\<close>

definition onMouseDown ::
  "'w env \<Rightarrow> MouseEvent \<Rightarrow> Label2dViewer \<times> 'w \<Rightarrow> bool \<times> Label2dViewer \<times> 'w" where
  "onMouseDown E e = (\<lambda>(v, w).
     if button e \<noteq> 0 then (False, v, w)
     else if \<not> isKeyDown v ''Control'' then
       (let mousePos = getMousePos E e (v, w);
            (labelIndex, handleIndex) = fetchHandleId E mousePos (v, w);
            (consumed, w1) = labels_onMouseDown E mousePos labelIndex handleIndex w
        in (consumed, snd (redraw E (v, w1))))
     else (False, snd (redraw E (v, w))))"

definition onMouseUp ::
  "'w env \<Rightarrow> MouseEvent \<Rightarrow> Label2dViewer \<times> 'w \<Rightarrow> bool \<times> Label2dViewer \<times> 'w" where
  "onMouseUp E e = (\<lambda>(v, w).
     if button e \<noteq> 0 then (False, v, w)
     else
       (let mousePos = getMousePos E e (v, w);
            (labelIndex, handleIndex) = fetchHandleId E mousePos (v, w);
            w1 = labels_onMouseUp E mousePos labelIndex handleIndex w
        in (False, snd (redraw E (v, w1)))))"

definition onMouseMove ::
  "'w env \<Rightarrow> MouseEvent \<Rightarrow> Label2dViewer \<times> 'w \<Rightarrow> bool \<times> Label2dViewer \<times> 'w" where
  "onMouseMove E e = (\<lambda>(v0, w0).
     (let (v, w) = (if \<not> isKeyDown v0 ''Control'' then setDefaultCursor E (v0, w0)
                    else (v0, w0));
          mousePos = getMousePos E e (v, w);
          (labelIndex, handleIndex) = fetchHandleId E mousePos (v, w);
          (consumed, w1) =
             labels_onMouseMove E mousePos (getCurrentImageSize E w) labelIndex handleIndex w
      in if consumed then (True, snd (redraw E (v, w1))) else (False, v, w1)))"

subsection \<open>Scale bookkeeping\<close>

text \<open>
  \<open>updateScale\<close> reads the viewer configuration from the session store and hands the
  quotient \<open>config.viewScale / this.scale\<close> to \<open>updateCanvasScale\<close>, whose four results
  are stored. (The quotient is only passed on; JavaScript's division by zero gives an
  infinity where HOL gives \<open>0\<close>.)
\<close>

definition updateScale ::
  "'w env \<Rightarrow> HTMLCanvasElement \<Rightarrow> CanvasRenderingContext2D \<Rightarrow> bool
     \<Rightarrow> Label2dViewer \<times> 'w \<Rightarrow> Label2dViewer \<times> 'w" where
  "updateScale E canvas context upRes = (\<lambda>(v, w).
     (case display v of
        None \<Rightarrow> (v, w)
      | Some d \<Rightarrow>
          (let config = getCurrentImageViewerConfig E w
           in if viewScale config < MIN_SCALE E \<or> viewScale config \<ge> MAX_SCALE E then (v, w)
              else
                (let ((cw, ch, r, s), w1) =
                       updateCanvasScale E d canvas context config
                         (viewScale config / scale v) upRes w
                 in (v\<lparr>canvasWidth := cw, canvasHeight := ch,
                        displayToImageRatio := r, scale := s\<rparr>, w1)))))"


subsection \<open>Rendering: the two canvas elements and their ref callbacks\<close>

text \<open>
  The bound methods of the constructor (\<open>this.mouseDownHandler = this.onMouseDown.bind (this)\<close>
  and so on), and the bound \<open>keyDownHandler\<close> of the tool bar, as listener values.
\<close>

datatype listener =
    mouseDownHandler | mouseUpHandler | mouseMoveHandler
  | keyDownHandler | keyUpHandler
  | ToolBar_bound_keyDownHandler

record canvas_element =
  el_key :: string
  className :: string
  prop_onMouseDown :: "listener option"
  prop_onMouseUp :: "listener option"
  prop_onMouseMove :: "listener option"
  prop_height :: "real option"
  prop_width :: "real option"

definition controlCanvas_ref ::
  "'w env \<Rightarrow> HTMLCanvasElement option \<Rightarrow> Label2dViewer \<times> 'w \<Rightarrow> Label2dViewer \<times> 'w" where
  "controlCanvas_ref E canvas = (\<lambda>(v, w).
     (case (canvas, display v) of
        (Some c, Some d) \<Rightarrow>
          (let v1 = v\<lparr>controlCanvas := Some c, controlContext := getContext E c w\<rparr>;
               (width, height) = getBoundingClientRect E d w
           in (case controlContext v1 of
                 Some cx \<Rightarrow>
                   if width \<noteq> 0 \<and> height \<noteq> 0 then updateScale E c cx True (v1, w)
                   else (v1, w)
               | None \<Rightarrow> (v1, w)))
      | _ \<Rightarrow> (v, w)))"

definition labelCanvas_ref ::
  "'w env \<Rightarrow> HTMLCanvasElement option \<Rightarrow> Label2dViewer \<times> 'w \<Rightarrow> Label2dViewer \<times> 'w" where
  "labelCanvas_ref E canvas = (\<lambda>(v, w).
     (case (canvas, display v) of
        (Some c, Some d) \<Rightarrow>
          (let v1 = v\<lparr>labelCanvas := Some c, labelContext := getContext E c w\<rparr>;
               (width, height) = getBoundingClientRect E d w
           in (case labelContext v1 of
                 Some lx \<Rightarrow>
                   if width \<noteq> 0 \<and> height \<noteq> 0 then updateScale E c lx True (v1, w)
                   else (v1, w)
               | None \<Rightarrow> (v1, w)))
      | _ \<Rightarrow> (v, w)))"

definition render :: "'w env \<Rightarrow> Label2dViewer \<times> 'w \<Rightarrow> canvas_element list" where
  "render E = (\<lambda>(v, w).
     (let controlCanvasEl =
            \<lparr> el_key = ''control-canvas'', className = control_canvas (props_classes v),
              prop_onMouseDown = None, prop_onMouseUp = None, prop_onMouseMove = None,
              prop_height = None, prop_width = None \<rparr>;
          labelCanvasEl =
            \<lparr> el_key = ''label-canvas'', className = label_canvas (props_classes v),
              prop_onMouseDown = Some mouseDownHandler, prop_onMouseUp = Some mouseUpHandler,
              prop_onMouseMove = Some mouseMoveHandler,
              prop_height = None, prop_width = None \<rparr>
      in (case display v of
            Some d \<Rightarrow>
              (let (width, height) = getBoundingClientRect E d w
               in [controlCanvasEl\<lparr>prop_height := Some height, prop_width := Some width\<rparr>,
                   labelCanvasEl\<lparr>prop_height := Some height, prop_width := Some width\<rparr>])
          | None \<Rightarrow> [controlCanvasEl, labelCanvasEl])))"

subsection \<open>Listeners on the document\<close>

text \<open>
  The document's listeners, in registration order, as pairs of event type and listener.
  \<open>addEventListener\<close> ignores a pair that is already registered and
  \<open>removeEventListener\<close> removes the pair, as the DOM does.
\<close>

type_synonym document = "(string \<times> listener) list"

definition addEventListener :: "string \<Rightarrow> listener \<Rightarrow> document \<Rightarrow> document" where
  "addEventListener t l doc = (if (t, l) \<in> set doc then doc else doc @ [(t, l)])"

definition removeEventListener :: "string \<Rightarrow> listener \<Rightarrow> document \<Rightarrow> document" where
  "removeEventListener t l doc = removeAll (t, l) doc"

definition componentDidMount :: "document \<Rightarrow> document" where
  "componentDidMount doc =
     addEventListener ''keyup'' keyUpHandler (addEventListener ''keydown'' keyDownHandler doc)"

text \<open>
  Neither \<open>Label2dViewer\<close> nor its base class \<open>Viewer\<close> declares a
  \<open>componentWillUnmount\<close>, and no other code can name the viewer's private bound
  handlers, so unmounting the viewer runs no code of the component.
\<close>

definition componentWillUnmount :: "document \<Rightarrow> document" where
  "componentWillUnmount doc = doc"

definition ToolBar_componentDidMount :: "document \<Rightarrow> document" where
  "ToolBar_componentDidMount doc = addEventListener ''keydown'' ToolBar_bound_keyDownHandler doc"

definition ToolBar_componentWillUnmount :: "document \<Rightarrow> document" where
  "ToolBar_componentWillUnmount doc = removeEventListener ''keydown'' ToolBar_bound_keyDownHandler doc"

subsection \<open>The tool bar's delete paths\<close>

text \<open>
  The slice \<open>state.user.select\<close> of the session state, the action built by
  \<open>deleteLabel (item, label)\<close> of \<open>../action/common\<close>, and the session store as two
  operations on the outside world.
\<close>

record Select =
  item :: int
  label :: int

record User =
  select :: Select

record State =
  user :: User

datatype Action = deleteLabel int int

record 'w session =
  Session_getState :: "'w \<Rightarrow> State"
  Session_dispatch :: "Action \<Rightarrow> 'w \<Rightarrow> 'w"

definition onDeleteLabel :: "'w session \<Rightarrow> 'w \<Rightarrow> 'w" where
  "onDeleteLabel S w =
     (let sel = select (user (Session_getState S w))
      in if label sel \<ge> 0 then Session_dispatch S (deleteLabel (item sel) (label sel)) w
         else w)"

definition ToolBar_keyDownHandler :: "'w session \<Rightarrow> KeyboardEvent \<Rightarrow> 'w \<Rightarrow> 'w" where
  "ToolBar_keyDownHandler S e w =
     (if key e = ''Backspace'' then
        (let sel = select (user (Session_getState S w))
         in if label sel \<ge> 0 then Session_dispatch S (deleteLabel (item sel) (label sel)) w
            else w)
      else w)"

subsection \<open>Delivery of browser events\<close>

text \<open>
  How the browser brings an event to the listeners above. A mouse event has a target:
  one of the rendered canvases, named by its key, or somewhere else on the page. The
  handler props of the target element run first, then the listeners registered on the
  document for the event type (the event bubbles up to the document). A key event
  reaches the document's listeners. \<open>stopPropagation\<close> is not followed further: the
  component registers no document listener that a mouse handler could cut off.
\<close>

datatype target = Element string | Elsewhere

datatype event = Mouse string target MouseEvent | Key string KeyboardEvent

definition element_listeners :: "canvas_element \<Rightarrow> string \<Rightarrow> listener list" where
  "element_listeners el t =
     (if t = ''mousedown'' then (case prop_onMouseDown el of Some l \<Rightarrow> [l] | None \<Rightarrow> [])
      else if t = ''mouseup'' then (case prop_onMouseUp el of Some l \<Rightarrow> [l] | None \<Rightarrow> [])
      else if t = ''mousemove'' then (case prop_onMouseMove el of Some l \<Rightarrow> [l] | None \<Rightarrow> [])
      else [])"

definition document_listeners :: "document \<Rightarrow> string \<Rightarrow> listener list" where
  "document_listeners doc t = map snd (filter (\<lambda>p. fst p = t) doc)"

fun listeners_for :: "'w env \<Rightarrow> document \<Rightarrow> event \<Rightarrow> Label2dViewer \<times> 'w \<Rightarrow> listener list" where
  "listeners_for E doc (Mouse t (Element k) e) st =
     concat (map (\<lambda>el. element_listeners el t) (filter (\<lambda>el. el_key el = k) (render E st)))
       @ document_listeners doc t"
| "listeners_for E doc (Mouse t Elsewhere e) st = document_listeners doc t"
| "listeners_for E doc (Key t e) st = document_listeners doc t"

fun invoke ::
  "'w env \<Rightarrow> 'w session \<Rightarrow> listener \<Rightarrow> event \<Rightarrow> Label2dViewer \<times> 'w \<Rightarrow> Label2dViewer \<times> 'w" where
  "invoke E S mouseDownHandler (Mouse t tg e) st = snd (onMouseDown E e st)"
| "invoke E S mouseUpHandler (Mouse t tg e) st = snd (onMouseUp E e st)"
| "invoke E S mouseMoveHandler (Mouse t tg e) st = snd (onMouseMove E e st)"
| "invoke E S keyDownHandler (Key t e) st = onKeyDown E e st"
| "invoke E S keyUpHandler (Key t e) st = onKeyUp E e st"
| "invoke E S ToolBar_bound_keyDownHandler (Key t e) st =
     (fst st, ToolBar_keyDownHandler S e (snd st))"
| "invoke E S _ _ st = st"

definition deliver ::
  "'w env \<Rightarrow> 'w session \<Rightarrow> document \<Rightarrow> event \<Rightarrow> Label2dViewer \<times> 'w \<Rightarrow> Label2dViewer \<times> 'w" where
  "deliver E S doc ev st = fold (\<lambda>l. invoke E S l ev) (listeners_for E doc ev st) st"

subsection \<open>A recording environment\<close>

text \<open>
  One concrete environment, to run the component on explicit inputs: the outside world
  is the list of the outside calls made so far, together with the \<open>viewScale\<close> and the
  selection held by the store. The scale bounds are taken to be \<open>1\<close> and \<open>3\<close>, the
  label list consumes every event, and the control canvas is blank, so every sample
  decodes to "no handle".
\<close>

datatype call =
    ClearCanvas HTMLCanvasElement CanvasRenderingContext2D
  | LabelsRedraw CanvasRenderingContext2D CanvasRenderingContext2D real
  | LabelsOnMouseDown Vector2D int int
  | LabelsOnMouseUp Vector2D int int
  | LabelsOnMouseMove Vector2D Vector2D int int
  | StyleCursor HTMLCanvasElement string
  | UpdateCanvasScale HTMLDivElement HTMLCanvasElement CanvasRenderingContext2D real real bool
  | Dispatch Action

record recorded =
  calls :: "call list"
  store_viewScale :: real
  store_select :: Select

definition record_call :: "call \<Rightarrow> recorded \<Rightarrow> recorded" where
  "record_call c w = w\<lparr>calls := calls w @ [c]\<rparr>"

definition recording_env :: "recorded env" where
  "recording_env =
     \<lparr> MIN_SCALE = 1, MAX_SCALE = 3, UP_RES_RATIO = 2,
       clearCanvas = (\<lambda>c x. record_call (ClearCanvas c x)),
       normalizeMouseCoordinates = (\<lambda>d c cw ch r x y w. Vector2D (x / r) (y / r)),
       toCanvasCoords = (\<lambda>p up r. case p of Vector2D x y \<Rightarrow>
                           if up then (x * r * 2, y * r * 2) else (x * r, y * r)),
       imageDataToHandleId = (\<lambda>data. (- 1, 0)),
       getCurrentImageSize = (\<lambda>w. Vector2D 100 50),
       updateCanvasScale = (\<lambda>d c x cfg ratio up w.
          ((100 * viewScale cfg, 50 * viewScale cfg, viewScale cfg, viewScale cfg),
           record_call (UpdateCanvasScale d c x (viewScale cfg) ratio up) w)),
       getCurrentImageViewerConfig = (\<lambda>w. \<lparr>viewScale = store_viewScale w\<rparr>),
       style_cursor_set = (\<lambda>c s. record_call (StyleCursor c s)),
       getContext = (\<lambda>c w. Some (c + 10)),
       getBoundingClientRect = (\<lambda>d w. (100, 50)),
       getImageData = (\<lambda>cx x y m n w. replicate (4 * m * n) 0),
       labels_redraw = (\<lambda>lx cx r. record_call (LabelsRedraw lx cx r)),
       labels_onMouseDown = (\<lambda>p li hi w. (True, record_call (LabelsOnMouseDown p li hi) w)),
       labels_onMouseUp = (\<lambda>p li hi. record_call (LabelsOnMouseUp p li hi)),
       labels_onMouseMove = (\<lambda>p sz li hi w.
          (True, record_call (LabelsOnMouseMove p sz li hi) w)) \<rparr>"

definition recording_session :: "recorded session" where
  "recording_session =
     \<lparr> Session_getState = (\<lambda>w. \<lparr>user = \<lparr>select = store_select w\<rparr>\<rparr>),
       Session_dispatch = (\<lambda>a. record_call (Dispatch a)) \<rparr>"

definition fresh :: "real \<Rightarrow> int \<Rightarrow> int \<Rightarrow> recorded" where
  "fresh vs i l = \<lparr>calls = [], store_viewScale = vs, store_select = \<lparr>item = i, label = l\<rparr>\<rparr>"

definition classes0 :: ClassType where
  "classes0 = \<lparr>label_canvas = ''label'', control_canvas = ''control''\<rparr>"

text \<open>The viewer before its canvases exist, and the viewer with all five references set.\<close>

definition unmounted :: Label2dViewer where
  "unmounted = constructor classes0 None"

definition mounted :: Label2dViewer where
  "mounted = (constructor classes0 (Some 0))
     \<lparr> labelContext := Some 11, controlContext := Some 12,
       labelCanvas := Some 1, controlCanvas := Some 2, display := Some 0 \<rparr>"

definition click :: "int \<Rightarrow> MouseEvent" where
  "click b = \<lparr>button = b, clientX = 10, clientY = 20\<rparr>"

text \<open>Two states used below: a drag begun on the label canvas, and the pan key held.\<close>

definition dragging :: "Label2dViewer \<times> recorded" where
  "dragging =
     deliver recording_env recording_session (componentDidMount [])
       (Mouse ''mousedown'' (Element ''label-canvas'') (click 0)) (mounted, fresh 1 0 0)"

definition panning :: "Label2dViewer \<times> recorded" where
  "panning = onKeyDown recording_env \<lparr>key = ''Control''\<rparr> (mounted, fresh 1 0 0)"

section \<open>Properties\<close>

subsection \<open>Shared facts\<close>


lemma panning_eq:
  "panning = (mounted\<lparr>keyDownMap := [''Control'' \<mapsto> True]\<rparr>, fresh 1 0 0)"
  by (simp add: panning_def onKeyDown_def mounted_def constructor_def)




lemma ToolBar_mount_unmount:
  "(''keydown'', ToolBar_bound_keyDownHandler) \<notin> set doc \<Longrightarrow>
     ToolBar_componentWillUnmount (ToolBar_componentDidMount doc) = doc"
  by (simp add: ToolBar_componentWillUnmount_def ToolBar_componentDidMount_def
      addEventListener_def removeEventListener_def)

lemma getMousePos_keys:
  "getMousePos E e (v\<lparr>keyDownMap := m\<rparr>, w) = getMousePos E e (v, w)"
  by (simp add: getMousePos_def split: option.splits)

lemma fetchHandleId_keys:
  "fetchHandleId E p (v\<lparr>keyDownMap := m\<rparr>, w) = fetchHandleId E p (v, w)"
  by (simp add: fetchHandleId_def split: option.splits)

lemma redraw_keys:
  "snd (snd (redraw E (v\<lparr>keyDownMap := m\<rparr>, w))) = snd (snd (redraw E (v, w)))"
  by (simp add: redraw_def Let_def split: option.splits)





subsection \<open>Where a pointer release is heard\<close>




subsection \<open>Scale requests\<close>




subsection \<open>Mouse-move\<close>

text \<open>
  C3, as the code has it. The Control key decides only whether the cursor is reset to
  the default: with or without it, every mouse-move computes the pointer position and
  the handle under it and hands them, with the image size, to the label list's
  \<open>onMouseMove\<close>; when the label list consumes the event, propagation stops and the
  canvases are redrawn.
\<close>

theorem mouse_move_forwards_always:
  "st = (if isKeyDown v ''Control'' then (v, w) else setDefaultCursor E (v, w)) \<Longrightarrow>
   pos = getMousePos E e st \<Longrightarrow>
   ids = fetchHandleId E pos st \<Longrightarrow>
   r = labels_onMouseMove E pos (getCurrentImageSize E (snd st)) (fst ids) (snd ids) (snd st) \<Longrightarrow>
   onMouseMove E e (v, w) =
     (if fst r then (True, snd (redraw E (fst st, snd r))) else (False, fst st, snd r))"
  by (cases "setDefaultCursor E (v, w)")
     (auto simp: onMouseMove_def Let_def split: prod.splits)

theorem mouse_move_forwards_always_witness:
  "isKeyDown (fst panning) ''Control''
   \<and> \<not> isKeyDown mounted ''Control''
   \<and> onMouseMove recording_env (click 0) panning =
       (True, fst panning,
        \<lparr>calls = [LabelsOnMouseMove (Vector2D 10 20) (Vector2D 100 50) (- 1) 0,
                  ClearCanvas 1 11, ClearCanvas 2 12, LabelsRedraw 11 12 2],
         store_viewScale = 1, store_select = \<lparr>item = 0, label = 0\<rparr>\<rparr>)
   \<and> calls (snd (snd (onMouseMove recording_env (click 0) (mounted, fresh 1 0 0)))) =
       [StyleCursor 1 ''crosshair'',
        LabelsOnMouseMove (Vector2D 10 20) (Vector2D 100 50) (- 1) 0,
        ClearCanvas 1 11, ClearCanvas 2 12, LabelsRedraw 11 12 2]"
  using mouse_move_forwards_always [OF refl refl refl refl,
          where v = "fst panning" and w = "snd panning" and E = recording_env and e = "click 0"]
        mouse_move_forwards_always [OF refl refl refl refl,
          where v = mounted and w = "fresh 1 0 0" and E = recording_env and e = "click 0"]
  by (simp add: panning_eq isKeyDown_def mounted_def constructor_def recording_env_def
      setDefaultCursor_def setCursor_def getMousePos_def fetchHandleId_def redraw_def
      record_call_def fresh_def click_def Let_def)

text \<open>
  C3 as stated fails: with Control held, a mouse-move still reaches the label list's
  \<open>onMouseMove\<close>.
\<close>

theorem mouse_move_while_panning_counterexample:
  "isKeyDown (fst panning) ''Control''
   \<and> calls (snd (snd (onMouseMove recording_env (click 0) panning))) =
       [LabelsOnMouseMove (Vector2D 10 20) (Vector2D 100 50) (- 1) 0,
        ClearCanvas 1 11, ClearCanvas 2 12, LabelsRedraw 11 12 2]"
  by (simp add: panning_eq onMouseMove_def isKeyDown_def mounted_def constructor_def
      recording_env_def getMousePos_def fetchHandleId_def redraw_def
      record_call_def fresh_def click_def Let_def)

subsection \<open>Mouse-up\<close>

text \<open>
  C4, as the code has it. Every mouse-up of the primary button is handed to the label
  list's \<open>onMouseUp\<close>, with the pointer position and the handle under it, and then the
  canvases are redrawn; no key is consulted, so what the outside world becomes does not
  depend on the keys held.
\<close>

theorem primary_mouse_up_forwards:
  "button e = 0 \<Longrightarrow> pos = getMousePos E e (v, w) \<Longrightarrow> ids = fetchHandleId E pos (v, w) \<Longrightarrow>
     onMouseUp E e (v, w) =
       (False, snd (redraw E (v, labels_onMouseUp E pos (fst ids) (snd ids) w)))
     \<and> snd (snd (onMouseUp E e (v\<lparr>keyDownMap := m\<rparr>, w))) = snd (snd (onMouseUp E e (v, w)))"
  by (simp add: onMouseUp_def Let_def getMousePos_keys fetchHandleId_keys redraw_keys
      split: prod.splits)

theorem primary_mouse_up_forwards_witness:
  "button (click 0) = 0
   \<and> calls (snd (snd (onMouseUp recording_env (click 0) panning))) =
       [LabelsOnMouseUp (Vector2D 10 20) (- 1) 0,
        ClearCanvas 1 11, ClearCanvas 2 12, LabelsRedraw 11 12 2]"
  using primary_mouse_up_forwards [OF _ refl refl,
          where v = "fst panning" and w = "snd panning" and E = recording_env and e = "click 0"]
  by (simp add: panning_eq mounted_def constructor_def recording_env_def
      getMousePos_def fetchHandleId_def redraw_def
      record_call_def fresh_def click_def Let_def)

text \<open>
  C4 as stated fails for the other buttons: a mouse-up of the secondary button on the
  canvas is not handed to the label list.
\<close>

theorem secondary_mouse_up_counterexample:
  "onMouseUp recording_env (click 2) (mounted, fresh 1 0 0) = (False, mounted, fresh 1 0 0)
   \<and> calls (fresh 1 0 0) = []"
  by (simp add: onMouseUp_def click_def fresh_def)

subsection \<open>Mouse-down\<close>

text \<open>
  C5, as the code has it. On a mouse-down of the primary button: without Control the
  handler hands the pointer position and the pair found by \<open>fetchHandleId\<close> to the label
  list's \<open>onMouseDown\<close>, stops propagation when the label list consumed the event, and
  redraws; with Control it only redraws and the label list is not called. The pair is
  decoded from the 4 by 4 block of the control context at the up-resolved canvas
  coordinates of the position when that context exists, and is \<open>(-1, 0)\<close> when it does
  not; the position comes from \<open>normalizeMouseCoordinates\<close> when display and label canvas
  exist, and is \<open>(0, 0)\<close> when one of them does not.
\<close>

theorem primary_mouse_down_forwards:
  "button e = 0 \<Longrightarrow> pos = getMousePos E e (v, w) \<Longrightarrow> ids = fetchHandleId E pos (v, w) \<Longrightarrow>
   r = labels_onMouseDown E pos (fst ids) (snd ids) w \<Longrightarrow>
     (\<not> isKeyDown v ''Control'' \<longrightarrow>
        onMouseDown E e (v, w) = (fst r, snd (redraw E (v, snd r))))
     \<and> (isKeyDown v ''Control'' \<longrightarrow> onMouseDown E e (v, w) = (False, snd (redraw E (v, w))))
     \<and> (controlContext v = Some cx \<longrightarrow>
          ids = imageDataToHandleId E
                  (getImageData E cx
                     (fst (toCanvasCoords E pos True (displayToImageRatio v)))
                     (snd (toCanvasCoords E pos True (displayToImageRatio v))) 4 4 w))
     \<and> (controlContext v = None \<longrightarrow> ids = (- 1, 0))
     \<and> (display v = Some d \<and> labelCanvas v = Some lc \<longrightarrow>
          pos = normalizeMouseCoordinates E d lc (canvasWidth v) (canvasHeight v)
                  (displayToImageRatio v) (clientX e) (clientY e) w)
     \<and> (display v = None \<or> labelCanvas v = None \<longrightarrow> pos = Vector2D 0 0)"
  by (auto simp: onMouseDown_def fetchHandleId_def getMousePos_def Let_def
      split: prod.splits option.splits)

theorem primary_mouse_down_forwards_witness:
  "button (click 0) = 0 \<and> \<not> isKeyDown mounted ''Control'' \<and> isKeyDown (fst panning) ''Control''
   \<and> calls (snd (snd (onMouseDown recording_env (click 0) (mounted, fresh 1 0 0)))) =
       [LabelsOnMouseDown (Vector2D 10 20) (- 1) 0,
        ClearCanvas 1 11, ClearCanvas 2 12, LabelsRedraw 11 12 2]
   \<and> calls (snd (snd (onMouseDown recording_env (click 0) panning))) =
       [ClearCanvas 1 11, ClearCanvas 2 12, LabelsRedraw 11 12 2]
   \<and> calls (snd (snd (onMouseDown recording_env (click 0) (unmounted, fresh 1 0 0)))) =
       [LabelsOnMouseDown (Vector2D 0 0) (- 1) 0]"
  using primary_mouse_down_forwards [OF _ refl refl refl,
          where v = mounted and w = "fresh 1 0 0" and E = recording_env and e = "click 0"
            and cx = 12 and d = 0 and lc = 1]
        primary_mouse_down_forwards [OF _ refl refl refl,
          where v = "fst panning" and w = "snd panning" and E = recording_env and e = "click 0"
            and cx = 12 and d = 0 and lc = 1]
        primary_mouse_down_forwards [OF _ refl refl refl,
          where v = unmounted and w = "fresh 1 0 0" and E = recording_env and e = "click 0"
            and cx = 12 and d = 0 and lc = 1]
  by (simp add: panning_def onKeyDown_def isKeyDown_def mounted_def unmounted_def
      constructor_def recording_env_def getMousePos_def fetchHandleId_def redraw_def
      record_call_def fresh_def click_def Let_def)

text \<open>
  C5 as stated fails for the other buttons: a mouse-down of the middle button, with no
  key held, makes no outside call at all, so nothing is sampled and nothing reaches the
  label list.
\<close>

theorem secondary_mouse_down_counterexample:
  "\<not> isKeyDown mounted ''Control'' \<and> button (click 1) = 1
   \<and> calls (snd (snd (onMouseDown recording_env (click 1) (mounted, fresh 1 0 0)))) = []"
  by (simp add: onMouseDown_def isKeyDown_def mounted_def constructor_def click_def fresh_def)

subsection \<open>Null references\<close>

text \<open>
  C6, as the code has it. Every use of a reference is under a null test, so nothing
  fails; what happens instead depends on the operation. With a null canvas or context
  \<open>redraw\<close> touches nothing; with a null label canvas \<open>setCursor\<close> does nothing; with a
  null display \<open>updateScale\<close> and both ref callbacks do nothing; \<open>getMousePos\<close> yields
  \<open>(0, 0)\<close> without a display or label canvas and \<open>fetchHandleId\<close> yields \<open>(-1, 0)\<close>
  without a control context. The pointer handlers are not no-ops: a primary-button
  mouse-up, and a primary-button mouse-down without Control, still call the label list,
  with those fallback values.
\<close>

theorem null_references_fall_back:
  "(labelCanvas v = None \<or> labelContext v = None
      \<or> controlCanvas v = None \<or> controlContext v = None \<longrightarrow> redraw E (v, w) = (True, v, w))
   \<and> (labelCanvas v = None \<longrightarrow> setCursor E cursor (v, w) = (v, w))
   \<and> (display v = None \<longrightarrow>
        updateScale E c x u (v, w) = (v, w)
        \<and> controlCanvas_ref E canvas (v, w) = (v, w)
        \<and> labelCanvas_ref E canvas (v, w) = (v, w))
   \<and> (display v = None \<or> labelCanvas v = None \<longrightarrow> getMousePos E e (v, w) = Vector2D 0 0)
   \<and> (controlContext v = None \<longrightarrow> fetchHandleId E p (v, w) = (- 1, 0))
   \<and> (button e = 0 \<and> (display v = None \<or> labelCanvas v = None) \<and> controlContext v = None \<longrightarrow>
        onMouseUp E e (v, w) = (False, v, labels_onMouseUp E (Vector2D 0 0) (- 1) 0 w)
        \<and> (\<not> isKeyDown v ''Control'' \<longrightarrow>
             onMouseDown E e (v, w) =
               (fst (labels_onMouseDown E (Vector2D 0 0) (- 1) 0 w), v,
                snd (labels_onMouseDown E (Vector2D 0 0) (- 1) 0 w))))"
  by (auto simp: redraw_def setCursor_def updateScale_def controlCanvas_ref_def
      labelCanvas_ref_def getMousePos_def fetchHandleId_def onMouseUp_def onMouseDown_def
      Let_def split: option.splits prod.splits)

theorem null_references_fall_back_witness:
  "labelCanvas unmounted = None \<and> controlContext unmounted = None \<and> display unmounted = None
   \<and> button (click 0) = 0 \<and> \<not> isKeyDown unmounted ''Control''
   \<and> redraw recording_env (unmounted, fresh 1 0 0) = (True, unmounted, fresh 1 0 0)
   \<and> setCursor recording_env ''crosshair'' (unmounted, fresh 1 0 0) = (unmounted, fresh 1 0 0)
   \<and> updateScale recording_env 1 11 True (unmounted, fresh 2 0 0) = (unmounted, fresh 2 0 0)
   \<and> labelCanvas_ref recording_env (Some 1) (unmounted, fresh 2 0 0) = (unmounted, fresh 2 0 0)
   \<and> getMousePos recording_env (click 0) (unmounted, fresh 1 0 0) = Vector2D 0 0
   \<and> fetchHandleId recording_env (Vector2D 0 0) (unmounted, fresh 1 0 0) = (- 1, 0)
   \<and> calls (snd (snd (onMouseUp recording_env (click 0) (unmounted, fresh 1 0 0)))) =
       [LabelsOnMouseUp (Vector2D 0 0) (- 1) 0]"
  using null_references_fall_back [where v = unmounted and w = "fresh 1 0 0"
          and E = recording_env and e = "click 0" and cursor = "''crosshair''"
          and p = "Vector2D 0 0"]
        null_references_fall_back [where v = unmounted and w = "fresh 2 0 0"
          and E = recording_env and c = 1 and x = 11 and u = True and canvas = "Some 1"]
  by (simp add: unmounted_def constructor_def isKeyDown_def recording_env_def record_call_def
      fresh_def click_def)

text \<open>
  C6 as stated fails for the pointer handlers: with all five references null, a
  primary-button mouse-down is not a no-op, it calls the label list's \<open>onMouseDown\<close>
  at \<open>(0, 0)\<close> with the "no handle" pair, the call that starts a new shape.
\<close>

theorem unmounted_mouse_down_counterexample:
  "display unmounted = None \<and> labelCanvas unmounted = None \<and> labelContext unmounted = None
   \<and> controlCanvas unmounted = None \<and> controlContext unmounted = None
   \<and> calls (fresh 1 0 0) = []
   \<and> calls (snd (snd (onMouseDown recording_env (click 0) (unmounted, fresh 1 0 0)))) =
       [LabelsOnMouseDown (Vector2D 0 0) (- 1) 0]"
  by (simp add: onMouseDown_def isKeyDown_def getMousePos_def fetchHandleId_def redraw_def
      unmounted_def constructor_def recording_env_def record_call_def fresh_def click_def)

subsection \<open>Redraw\<close>

text \<open>
  C7, as the code has it. When the label canvas, the label context, the control canvas
  and the control context all exist, \<open>redraw\<close> clears the label canvas, then the
  control canvas, then hands both contexts and the ratio
  \<open>displayToImageRatio * UP_RES_RATIO\<close> to the label list's \<open>redraw\<close>. When one of
  the four is null it touches nothing. In both cases it returns \<open>true\<close>: the result
  does not tell whether anything was drawn.
\<close>

theorem redraw_clears_then_delegates:
  "(labelCanvas v = Some lc \<and> labelContext v = Some lx
      \<and> controlCanvas v = Some cc \<and> controlContext v = Some cx \<longrightarrow>
      redraw E (v, w) =
        (True, v, labels_redraw E lx cx (displayToImageRatio v * UP_RES_RATIO E)
                    (clearCanvas E cc cx (clearCanvas E lc lx w))))
   \<and> (labelCanvas v = None \<or> labelContext v = None
        \<or> controlCanvas v = None \<or> controlContext v = None \<longrightarrow>
      redraw E (v, w) = (True, v, w))
   \<and> fst (redraw E (v, w)) = True"
  by (auto simp: redraw_def Let_def split: option.splits)

theorem redraw_clears_then_delegates_witness:
  "calls (snd (snd (redraw recording_env (mounted, fresh 1 0 0)))) =
     [ClearCanvas 1 11, ClearCanvas 2 12, LabelsRedraw 11 12 2]
   \<and> redraw recording_env (unmounted, fresh 1 0 0) = (True, unmounted, fresh 1 0 0)"
  using redraw_clears_then_delegates [of mounted 1 11 2 12 recording_env "fresh 1 0 0"]
        redraw_clears_then_delegates [of unmounted 1 11 2 12 recording_env "fresh 1 0 0"]
  by (simp add: mounted_def unmounted_def constructor_def recording_env_def record_call_def
      fresh_def)

text \<open>
  C7 as stated fails where it says that the boolean reports whether any drawing occurred:
  before the canvases exist \<open>redraw\<close> makes no outside call at all and still returns
  \<open>true\<close>.
\<close>

theorem redraw_unmounted_counterexample:
  "fst (redraw recording_env (unmounted, fresh 1 0 0)) = True
   \<and> calls (snd (snd (redraw recording_env (unmounted, fresh 1 0 0)))) = []"
  by (simp add: redraw_def unmounted_def constructor_def fresh_def)

subsection \<open>The tool bar's Backspace\<close>

text \<open>
  C8. On a \<open>Backspace\<close> key-down the tool bar reads \<open>select\<close> from the session state;
  with \<open>select.label \<ge> 0\<close> the outside world changes by one dispatch of
  \<open>deleteLabel (select.item, select.label)\<close>, and with no label selected nothing is
  dispatched. The Delete button's callback \<open>onDeleteLabel\<close> does the same.
\<close>

theorem backspace_deletes_selected_label:
  "key e = ''Backspace'' \<Longrightarrow> sel = select (user (Session_getState S w)) \<Longrightarrow>
     (label sel \<ge> 0 \<longrightarrow>
        ToolBar_keyDownHandler S e w = Session_dispatch S (deleteLabel (item sel) (label sel)) w)
     \<and> (label sel < 0 \<longrightarrow> ToolBar_keyDownHandler S e w = w)
     \<and> onDeleteLabel S w = ToolBar_keyDownHandler S e w"
  by (simp add: ToolBar_keyDownHandler_def onDeleteLabel_def Let_def)

theorem backspace_deletes_selected_label_witness:
  "calls (ToolBar_keyDownHandler recording_session \<lparr>key = ''Backspace''\<rparr> (fresh 1 4 7))
     = [Dispatch (deleteLabel 4 7)]
   \<and> calls (ToolBar_keyDownHandler recording_session \<lparr>key = ''Backspace''\<rparr> (fresh 1 4 (- 1)))
     = []"
  using backspace_deletes_selected_label
          [of "\<lparr>key = ''Backspace''\<rparr>" "\<lparr>item = 4, label = 7\<rparr>" recording_session "fresh 1 4 7"]
        backspace_deletes_selected_label
          [of "\<lparr>key = ''Backspace''\<rparr>" "\<lparr>item = 4, label = - 1\<rparr>" recording_session
              "fresh 1 4 (- 1)"]
  by (simp add: recording_session_def fresh_def record_call_def)

subsection \<open>Listeners across mount and unmount\<close>

text \<open>
  C9 at the input where the code departs from it: mounting the viewer on a document
  without listeners and unmounting it again leaves the viewer's \<open>keydown\<close> and \<open>keyup\<close>
  listeners on the document, whereas the tool bar's own mount and unmount pair leaves
  the document as it was.
\<close>

theorem viewer_listeners_leak:
  "componentWillUnmount (componentDidMount []) =
     [(''keydown'', keyDownHandler), (''keyup'', keyUpHandler)]
   \<and> ToolBar_componentWillUnmount (ToolBar_componentDidMount []) = []"
  by (simp add: componentWillUnmount_def componentDidMount_def addEventListener_def
      ToolBar_componentWillUnmount_def ToolBar_componentDidMount_def removeEventListener_def)

subsection \<open>Buttons other than the primary one\<close>

text \<open>
  C10. A mouse-down or mouse-up whose button is not the primary one (\<open>e.button \<noteq> 0\<close>)
  returns at once: the component and everything outside it (label list, canvases)
  are left as they were, and propagation is not stopped.
\<close>

theorem non_primary_button_ignored:
  "button e \<noteq> 0 \<Longrightarrow>
     onMouseDown E e (v, w) = (False, v, w) \<and> onMouseUp E e (v, w) = (False, v, w)"
  by (simp add: onMouseDown_def onMouseUp_def)

theorem non_primary_button_ignored_witness:
  "button (click 2) \<noteq> 0
   \<and> onMouseDown recording_env (click 2) dragging = (False, dragging)
   \<and> onMouseUp recording_env (click 2) dragging = (False, dragging)"
  using non_primary_button_ignored [of "click 2" recording_env "fst dragging" "snd dragging"]
  by (simp add: click_def)

end
